theory Spec2Isabelle
  imports Main
begin

section \<open>JavaScript values\<close>

text \<open>
  The store fields and the response body hold JavaScript values: \<open>undefined\<close> (what a
  destructuring pattern binds for a property that is not there) and the values of a parsed
  JSON document. Numbers are the integer-valued ones (the advice service sends an integer
  id); strings are character lists. An object is the list of its own properties, name and
  value; a JavaScript object has each name once, and the lookup reads the first entry of
  a name.
\<close>

datatype jsval =
    JUndefined
  | JNull
  | JBool bool
  | JNum int
  | JStr string
  | JArr "jsval list"
  | JObj "(string \<times> jsval) list"

text \<open>
  What the program can throw or be rejected with: the \<open>TypeError\<close> of reading a property
  of \<open>undefined\<close> or \<open>null\<close>, and the error (with its message) that a failed request
  rejects with.
\<close>

datatype js_error = TypeError | AxiosError string

subsection \<open>String conversion, as a template literal performs it\<close>

definition digit_char :: "nat \<Rightarrow> char" where
  "digit_char d = ''0123456789'' ! d"

fun digits :: "nat \<Rightarrow> string" where
  "digits n = (if n < 10 then [digit_char n] else digits (n div 10) @ [digit_char (n mod 10)])"

declare digits.simps [simp del]

text \<open>
  \<open>String(n)\<close> for an integer \<open>n\<close> of magnitude below \<open>10^21\<close>, where JavaScript
  keeps the plain decimal notation. From \<open>10^21\<close> on JavaScript prints an exponent and
  this function still prints every digit; it is evaluated below at \<open>42\<close> and \<open>7\<close> only.
\<close>

definition number_to_string :: "int \<Rightarrow> string" where
  "number_to_string i = (if i < 0 then CHR ''-'' # digits (nat (- i)) else digits (nat i))"

fun join :: "string \<Rightarrow> string list \<Rightarrow> string" where
  "join sep [] = []"
| "join sep [x] = x"
| "join sep (x # y # ys) = x @ sep @ join sep (y # ys)"

text \<open>
  \<open>`${v}`\<close> converts \<open>v\<close> with \<open>ToString\<close>: an array joins its elements with commas,
  \<open>null\<close> and \<open>undefined\<close> elements giving the empty string; a plain object gives
  \<open>[object Object]\<close>.
\<close>

fun to_string :: "jsval \<Rightarrow> string" where
  "to_string JUndefined = ''undefined''"
| "to_string JNull = ''null''"
| "to_string (JBool b) = (if b then ''true'' else ''false'')"
| "to_string (JNum n) = number_to_string n"
| "to_string (JStr s) = s"
| "to_string (JArr xs) =
     join '','' (map (\<lambda>x. if x = JUndefined \<or> x = JNull then [] else to_string x) xs)"
| "to_string (JObj kvs) = ''[object Object]''"

subsection \<open>Property access and destructuring\<close>

text \<open>
  \<open>v.k\<close> for the names the program reads (\<open>slip\<close>, \<open>id\<close>, \<open>advice\<close>; no built-in
  prototype defines them): a \<open>TypeError\<close> on \<open>undefined\<close> and \<open>null\<close>, the own property
  of an object or \<open>undefined\<close> when it has none, \<open>undefined\<close> on every other value.
\<close>

fun get_prop :: "jsval \<Rightarrow> string \<Rightarrow> js_error + jsval" where
  "get_prop JUndefined k = Inl TypeError"
| "get_prop JNull k = Inl TypeError"
| "get_prop (JObj kvs) k = Inr (case map_of kvs k of None \<Rightarrow> JUndefined | Some v \<Rightarrow> v)"
| "get_prop v k = Inr JUndefined"

text \<open>\<open>const { id, advice } = v\<close>: the pair \<open>(id, advice)\<close>, or the \<open>TypeError\<close> of
  destructuring \<open>undefined\<close> or \<open>null\<close>.\<close>

definition destructure_id_advice :: "jsval \<Rightarrow> js_error + jsval \<times> jsval" where
  "destructure_id_advice v =
     (case get_prop v ''id'' of
        Inl e \<Rightarrow> Inl e
      | Inr i \<Rightarrow> (case get_prop v ''advice'' of Inl e \<Rightarrow> Inl e | Inr a \<Rightarrow> Inr (i, a)))"

section \<open>The store \<open>userAdviceStore\<close>\<close>

record userAdviceStore =
  advice :: jsval
  nAdvice :: jsval

text \<open>\<open>state: () => ({ advice: "", nAdvice: "" })\<close>\<close>

definition initial_state :: userAdviceStore where
  "initial_state = \<lparr>advice = JStr [], nAdvice = JStr []\<rparr>"

subsection \<open>Getters\<close>

definition dquote :: char where
  "dquote = CHR 0x22"

definition getAdvice :: "userAdviceStore \<Rightarrow> string" where
  "getAdvice state = [dquote] @ to_string (advice state) @ [dquote]"

definition getIdAdvice :: "userAdviceStore \<Rightarrow> string" where
  "getIdAdvice state = ''advice #'' @ to_string (nAdvice state)"

subsection \<open>The world the action runs in\<close>

text \<open>
  Besides the store, the program acts on the browser: \<open>alert\<close> dialogs shown, lines
  the program writes with \<open>console.log\<close>, and GET requests handed to axios (by URL).
  Each is a list in the order of the calls.
\<close>

datatype log_entry = LogValue jsval | LogError js_error | LogText string

record world =
  store :: userAdviceStore
  alerts :: "js_error list"
  console :: "log_entry list"
  requests :: "string list"

definition initial_world :: world where
  "initial_world = \<lparr>store = initial_state, alerts = [], console = [], requests = []\<rparr>"

definition alert :: "js_error \<Rightarrow> world \<Rightarrow> world" where
  "alert e w = w\<lparr>alerts := alerts w @ [e]\<rparr>"

definition console_log :: "log_entry \<Rightarrow> world \<Rightarrow> world" where
  "console_log x w = w\<lparr>console := console w @ [x]\<rparr>"

subsection \<open>The action \<open>fetchAdvice\<close>\<close>

text \<open>
  The response object axios resolves with; only its \<open>data\<close> (the parsed body) is read.
  A request settles by resolving with a response or rejecting with an error.
\<close>

record response =
  data :: jsval

datatype axios_result = Resolved response | Rejected js_error

definition advice_url :: string where
  "advice_url = ''https://api.adviceslip.com/advice''"

text \<open>
  An \<open>async\<close> function runs up to its first \<open>await\<close> when it is called, and the rest
  when the awaited promise settles, each part without interruption. Up to the \<open>await\<close>,
  \<open>fetchAdvice\<close> calls \<open>axios.get\<close>.
\<close>

definition fetchAdvice_call :: "world \<Rightarrow> world" where
  "fetchAdvice_call w = w\<lparr>requests := requests w @ [advice_url]\<rparr>"

text \<open>
  The \<open>try\<close> block from the \<open>await\<close> on, \<open>Inl\<close> being a throw. Every statement that
  can throw stands before the first effect, so a throw leaves the world as it was.
\<close>

definition fetchAdvice_try :: "axios_result \<Rightarrow> world \<Rightarrow> js_error + world" where
  "fetchAdvice_try r w =
     (case r of
        Rejected e \<Rightarrow> Inl e
      | Resolved resp \<Rightarrow>
          (case get_prop (data resp) ''slip'' of
             Inl e \<Rightarrow> Inl e
           | Inr slip \<Rightarrow>
               (case destructure_id_advice slip of
                  Inl e \<Rightarrow> Inl e
                | Inr (i, a) \<Rightarrow>
                    (let w1 = console_log (LogValue slip) w;
                         w2 = w1\<lparr>store := (store w1)\<lparr>advice := a\<rparr>\<rparr>;
                         w3 = w2\<lparr>store := (store w2)\<lparr>nAdvice := i\<rparr>\<rparr>
                     in Inr w3))))"

definition fetchAdvice_catch :: "js_error \<Rightarrow> world \<Rightarrow> world" where
  "fetchAdvice_catch e w = console_log (LogError e) (alert e w)"

text \<open>The part of \<open>fetchAdvice\<close> that runs when the request has settled with \<open>r\<close>.\<close>

definition fetchAdvice_resume :: "axios_result \<Rightarrow> world \<Rightarrow> js_error + world" where
  "fetchAdvice_resume r w =
     (case fetchAdvice_try r w of
        Inr w' \<Rightarrow> Inr w'
      | Inl e \<Rightarrow> Inr (fetchAdvice_catch e w))"

section \<open>The view \<open>App.vue\<close>\<close>

text \<open>
  \<open>...mapState(userAdviceStore, ["advice", "nAdvice"])\<close>: the component's computed
  properties \<open>advice\<close> and \<open>nAdvice\<close> read the store's properties of those names.
\<close>

definition view_advice :: "userAdviceStore \<Rightarrow> jsval" where
  "view_advice s = advice s"

definition view_nAdvice :: "userAdviceStore \<Rightarrow> jsval" where
  "view_nAdvice s = nAdvice s"

text \<open>
  The text an interpolation \<open>{{ v }}\<close> puts on the page: a string as it is, nothing for
  \<open>null\<close> and \<open>undefined\<close>, the JSON text of an array or an object, and the string
  conversion of a number or a boolean. The JSON serialiser is a parameter.
\<close>

definition toDisplayString :: "(jsval \<Rightarrow> string) \<Rightarrow> jsval \<Rightarrow> string" where
  "toDisplayString stringify v =
     (case v of
        JStr s \<Rightarrow> s
      | JUndefined \<Rightarrow> []
      | JNull \<Rightarrow> []
      | JArr xs \<Rightarrow> stringify v
      | JObj kvs \<Rightarrow> stringify v
      | _ \<Rightarrow> to_string v)"

text \<open>The template: the text of the \<open>h4\<close> element (\<open>{{ nAdvice }}\<close>) and of the
  \<open>h1\<close> element (\<open>{{ advice }}\<close>).\<close>

record page =
  h4 :: string
  h1 :: string

definition render :: "(jsval \<Rightarrow> string) \<Rightarrow> userAdviceStore \<Rightarrow> page" where
  "render stringify s =
     \<lparr>h4 = toDisplayString stringify (view_nAdvice s),
      h1 = toDisplayString stringify (view_advice s)\<rparr>"

text \<open>
  \<open>...mapActions(userAdviceStore, ["fetchAdvice", "reloadAdvice"])\<close>: the method
  \<open>fetchAdvice\<close> calls the store's action. The store has no \<open>reloadAdvice\<close>, so that
  method would call \<open>undefined\<close>; nothing in the component calls it.
\<close>

definition reloadAdvice :: "world \<Rightarrow> js_error + world" where
  "reloadAdvice w = Inl TypeError"

definition newAdvice :: "world \<Rightarrow> world" where
  "newAdvice w = console_log (LogText ''generate advice'') (fetchAdvice_call w)"

definition mounted :: "world \<Rightarrow> world" where
  "mounted w = fetchAdvice_call w"

text \<open>
  The value of \<open>this\<close> in an expression of the template. The component has a
  \<open><script setup>\<close> block, so it depends on how the template is compiled. Compiled to a
  render function of its own (the development server), the function is called with the
  component as \<open>this\<close>. Inlined into \<open>setup()\<close> (the production build), the expression
  has the \<open>this\<close> of \<open>setup\<close>, which is \<open>undefined\<close>.
\<close>

datatype template_this = ThisComponent | ThisUndefined

text \<open>
  \<open>@click="this.newAdvice()"\<close>: the handler reads \<open>newAdvice\<close> from \<open>this\<close> and calls it.
  Reading a property of \<open>undefined\<close> throws a \<open>TypeError\<close>, before anything is called.
\<close>

definition click :: "template_this \<Rightarrow> world \<Rightarrow> js_error + world" where
  "click t w =
     (case t of
        ThisUndefined \<Rightarrow> Inl TypeError
      | ThisComponent \<Rightarrow> Inr (newAdvice w))"

section \<open>Runs of the application\<close>

text \<open>
  Everything that can happen, one uninterrupted step each: a call of \<open>fetchAdvice\<close> (up
  to its \<open>await\<close>), the settling of a request (the rest of \<open>fetchAdvice\<close>), a read of a
  getter, a rendering of the template, a click on the control, the mounting of the
  component, a call of the component's \<open>reloadAdvice\<close>. A step gives what it returned or
  threw, and the world after it. The serialiser \<open>sf\<close> of the interpolation and the
  \<open>this\<close> of the template, \<open>t\<close>, are the same throughout a run. A run is any list of steps: it may settle a request that
  no call has made, so the runs of the application are among the runs considered here.
\<close>

datatype op =
    FetchAdviceCall
  | FetchAdviceSettle axios_result
  | GetAdvice
  | GetIdAdvice
  | RenderView
  | ClickControl
  | MountView
  | ReloadAdvice

datatype op_outcome = Done | Text string | Shown page | Threw js_error

fun exec ::
  "(jsval \<Rightarrow> string) \<Rightarrow> template_this \<Rightarrow> op \<Rightarrow> world \<Rightarrow> op_outcome \<times> world" where
  "exec sf t FetchAdviceCall w = (Done, fetchAdvice_call w)"
| "exec sf t (FetchAdviceSettle r) w =
     (case fetchAdvice_resume r w of Inl e \<Rightarrow> (Threw e, w) | Inr w' \<Rightarrow> (Done, w'))"
| "exec sf t GetAdvice w = (Text (getAdvice (store w)), w)"
| "exec sf t GetIdAdvice w = (Text (getIdAdvice (store w)), w)"
| "exec sf t RenderView w = (Shown (render sf (store w)), w)"
| "exec sf t ClickControl w =
     (case click t w of Inl e \<Rightarrow> (Threw e, w) | Inr w' \<Rightarrow> (Done, w'))"
| "exec sf t MountView w = (Done, mounted w)"
| "exec sf t ReloadAdvice w =
     (case reloadAdvice w of Inl e \<Rightarrow> (Threw e, w) | Inr w' \<Rightarrow> (Done, w'))"

fun exec_all ::
  "(jsval \<Rightarrow> string) \<Rightarrow> template_this \<Rightarrow> op list \<Rightarrow> world \<Rightarrow> world" where
  "exec_all sf t [] w = w"
| "exec_all sf t (x # xs) w = exec_all sf t xs (snd (exec sf t x w))"

subsection \<open>The record a response carries\<close>

text \<open>
  The AdviceRecord of a settled request, in the specification's terms: a rejected
  request carries none; a response carries the \<open>id\<close> and \<open>advice\<close> of its \<open>slip\<close>, when
  the body has a \<open>slip\<close> to take them from.
\<close>

definition response_record :: "axios_result \<Rightarrow> userAdviceStore option" where
  "response_record r =
     (case r of
        Rejected e \<Rightarrow> None
      | Resolved resp \<Rightarrow>
          (case get_prop (data resp) ''slip'' of
             Inl e \<Rightarrow> None
           | Inr slip \<Rightarrow>
               (case destructure_id_advice slip of
                  Inl e \<Rightarrow> None
                | Inr (i, a) \<Rightarrow> Some \<lparr>advice = a, nAdvice = i\<rparr>)))"

definition settled_record :: "op \<Rightarrow> userAdviceStore option" where
  "settled_record x = (case x of FetchAdviceSettle r \<Rightarrow> response_record r | _ \<Rightarrow> None)"

text \<open>The record of the last successful fetch of a run, \<open>cur\<close> when there is none.\<close>

fun latest_record :: "userAdviceStore \<Rightarrow> op list \<Rightarrow> userAdviceStore" where
  "latest_record cur [] = cur"
| "latest_record cur (x # xs) =
     latest_record (case settled_record x of None \<Rightarrow> cur | Some rec \<Rightarrow> rec) xs"

text \<open>The response \<open>{slip: {id: i, advice: a}}\<close>.\<close>

definition slip_response :: "jsval \<Rightarrow> jsval \<Rightarrow> axios_result" where
  "slip_response i a =
     Resolved \<lparr>data = JObj [(''slip'', JObj [(''id'', i), (''advice'', a)])]\<rparr>"

subsection \<open>Example responses and states\<close>

definition be_kind_response :: axios_result where
  "be_kind_response = slip_response (JNum 42) (JStr ''Be kind.'')"

definition be_kind_state :: userAdviceStore where
  "be_kind_state = \<lparr>advice = JStr ''Be kind.'', nAdvice = JNum 42\<rparr>"

definition smile_response :: axios_result where
  "smile_response = slip_response (JNum 7) (JStr ''Smile.'')"

definition smile_state :: userAdviceStore where
  "smile_state = \<lparr>advice = JStr ''Smile.'', nAdvice = JNum 7\<rparr>"

definition network_error :: axios_result where
  "network_error = Rejected (AxiosError ''Network Error'')"

section \<open>Properties\<close>

subsection \<open>Evaluation and the steps of \<open>fetchAdvice\<close>\<close>

lemma digits_42: "digits 42 = ''42''"
  by (simp add: digits.simps [of 42] digits.simps [of 4] digit_char_def)

lemma number_to_string_42: "number_to_string 42 = ''42''"
  by (simp add: number_to_string_def digits_42)

lemma response_record_slip: "response_record (slip_response i a) = Some \<lparr>advice = a, nAdvice = i\<rparr>"
  by (simp add: response_record_def slip_response_def destructure_id_advice_def)

lemma response_record_reads_slip:
  assumes "response_record r = Some rec"
  shows "\<exists>resp slip. r = Resolved resp \<and> get_prop (data resp) ''slip'' = Inr slip \<and>
           get_prop slip ''id'' = Inr (nAdvice rec) \<and>
           get_prop slip ''advice'' = Inr (advice rec)"
  using assms
  by (auto simp: response_record_def destructure_id_advice_def
           split: axios_result.splits sum.splits prod.splits)

lemma try_success:
  assumes "response_record r = Some rec"
  shows "\<exists>w'. fetchAdvice_try r w = Inr w' \<and> store w' = rec \<and> alerts w' = alerts w \<and>
               requests w' = requests w"
  using assms
  by (auto simp: response_record_def fetchAdvice_try_def console_log_def Let_def
           split: axios_result.splits sum.splits prod.splits)

lemma try_failure:
  assumes "response_record r = None"
  shows "\<exists>e. fetchAdvice_try r w = Inl e"
  using assms
  by (auto simp: response_record_def fetchAdvice_try_def
           split: axios_result.splits sum.splits prod.splits)

lemma resume_success:
  assumes "response_record r = Some rec"
  shows "\<exists>w'. fetchAdvice_resume r w = Inr w' \<and> store w' = rec \<and> alerts w' = alerts w \<and>
               requests w' = requests w"
proof -
  from try_success [OF assms, of w] obtain w' where
    "fetchAdvice_try r w = Inr w'" "store w' = rec" "alerts w' = alerts w"
    "requests w' = requests w" by blast
  then show ?thesis by (simp add: fetchAdvice_resume_def)
qed

lemma resume_failure:
  assumes "fetchAdvice_try r w = Inl e"
  shows "fetchAdvice_resume r w = Inr (fetchAdvice_catch e w)"
  using assms by (simp add: fetchAdvice_resume_def)

lemma store_catch: "store (fetchAdvice_catch e w) = store w"
  by (simp add: fetchAdvice_catch_def console_log_def alert_def)

lemma alerts_catch: "alerts (fetchAdvice_catch e w) = alerts w @ [e]"
  by (simp add: fetchAdvice_catch_def console_log_def alert_def)

lemma resume_total: "\<exists>w'. fetchAdvice_resume r w = Inr w'"
  by (simp add: fetchAdvice_resume_def split: sum.splits)

lemma store_call: "store (fetchAdvice_call w) = store w"
  by (simp add: fetchAdvice_call_def)

lemma store_exec:
  "store (snd (exec sf t x w)) = (case settled_record x of None \<Rightarrow> store w | Some rec \<Rightarrow> rec)"
proof (cases x)
  case (FetchAdviceSettle r)
  show ?thesis
  proof (cases "response_record r")
    case None
    from try_failure [OF None, of w] obtain e where "fetchAdvice_try r w = Inl e" ..
    with None FetchAdviceSettle show ?thesis
      by (simp add: settled_record_def resume_failure store_catch)
  next
    case (Some rec)
    from resume_success [OF Some, of w] obtain w' where
      "fetchAdvice_resume r w = Inr w'" "store w' = rec" by blast
    with Some FetchAdviceSettle show ?thesis
      by (simp add: settled_record_def)
  qed
qed (simp_all add: settled_record_def store_call click_def newAdvice_def mounted_def
       console_log_def reloadAdvice_def split: template_this.splits)

lemma store_exec_all: "store (exec_all sf t xs w) = latest_record (store w) xs"
  by (induction xs arbitrary: w) (simp_all add: store_exec)

lemma latest_record_cases:
  "latest_record cur xs = cur \<or>
   (\<exists>r. FetchAdviceSettle r \<in> set xs \<and> response_record r = Some (latest_record cur xs))"
proof (induction xs arbitrary: cur)
  case Nil
  show ?case by simp
next
  case (Cons x xs)
  show ?case
  proof (cases "settled_record x")
    case None
    with Cons.IH [of cur] show ?thesis by auto
  next
    case (Some rec)
    then obtain r where x: "x = FetchAdviceSettle r" and r: "response_record r = Some rec"
      by (auto simp: settled_record_def split: op.splits)
    from Cons.IH [of rec] Some x r show ?thesis by auto
  qed
qed

lemma click_component: "click ThisComponent w = Inr (newAdvice w)"
  by (simp add: click_def)

lemma click_undefined: "click ThisUndefined w = Inl TypeError"
  by (simp add: click_def)

lemma requests_newAdvice: "requests (newAdvice w) = requests w @ [advice_url]"
  by (simp add: newAdvice_def console_log_def fetchAdvice_call_def)

lemma requests_mounted: "requests (mounted w) = requests w @ [advice_url]"
  by (simp add: mounted_def fetchAdvice_call_def)

lemma requests_clicks_component:
  "requests (exec_all sf ThisComponent (replicate n ClickControl) w) =
   requests w @ replicate n advice_url"
proof (induction n arbitrary: w)
  case 0
  show ?case by simp
next
  case (Suc n)
  have "requests (exec_all sf ThisComponent (replicate (Suc n) ClickControl) w) =
        requests (exec_all sf ThisComponent (replicate n ClickControl) (newAdvice w))"
    by (simp add: click_component)
  also have "\<dots> = requests (newAdvice w) @ replicate n advice_url"
    by (rule Suc.IH)
  also have "\<dots> = requests w @ replicate (Suc n) advice_url"
    by (simp add: requests_newAdvice)
  finally show ?case .
qed

lemma clicks_undefined: "exec_all sf ThisUndefined (replicate n ClickControl) w = w"
  by (induction n) (simp_all add: click_undefined)

lemma getAdvice_be_kind: "getAdvice be_kind_state = CHR 0x22 # ''Be kind.'' @ [CHR 0x22]"
  by (simp add: getAdvice_def be_kind_state_def dquote_def)

lemma getIdAdvice_be_kind: "getIdAdvice be_kind_state = ''advice #42''"
  by (simp add: getIdAdvice_def be_kind_state_def number_to_string_42)

lemma response_record_be_kind: "response_record be_kind_response = Some be_kind_state"
  by (simp add: be_kind_response_def be_kind_state_def response_record_slip)

lemma response_record_smile: "response_record smile_response = Some smile_state"
  by (simp add: smile_response_def smile_state_def response_record_slip)

lemma response_record_network_error: "response_record network_error = None"
  by (simp add: network_error_def response_record_def)

subsection \<open>The store, the view and their runs\<close>

text \<open>
  C1. A refresh that settles with the response \<open>{slip: {id: 42, advice: "Be kind."}}\<close>
  completes, from every prior world, in a state where \<open>getAdvice\<close> returns
  \<open>"Be kind."\<close> with the two double-quote characters around it, and \<open>getIdAdvice\<close>
  returns \<open>advice #42\<close>, a label that contains \<open>42\<close>.
\<close>

theorem C1_be_kind:
  "\<exists>w'. fetchAdvice_resume (slip_response (JNum 42) (JStr ''Be kind.'')) (fetchAdvice_call w) = Inr w' \<and>
     getAdvice (store w') = CHR 0x22 # ''Be kind.'' @ [CHR 0x22] \<and>
     getIdAdvice (store w') = ''advice #42'' \<and>
     (\<exists>before after. getIdAdvice (store w') = before @ ''42'' @ after)"
proof -
  from resume_success [OF response_record_be_kind, of "fetchAdvice_call w"]
  obtain w' where
    r: "fetchAdvice_resume be_kind_response (fetchAdvice_call w) = Inr w'" and
    s: "store w' = be_kind_state"
    by blast
  have "getIdAdvice be_kind_state = ''advice #'' @ ''42'' @ []"
    by (simp add: getIdAdvice_be_kind)
  then have "\<exists>before after. getIdAdvice be_kind_state = before @ ''42'' @ after"
    by blast
  with r s show ?thesis
    unfolding be_kind_response_def
    by (auto simp: getAdvice_be_kind getIdAdvice_be_kind simp del: append.simps)
qed

text \<open>
  C2. What the view shows against what the getters return, in the state a refresh with
  \<open>{slip: {id: 42, advice: "Be kind."}}\<close> leaves: the \<open>h4\<close> element shows \<open>42\<close>
  and the \<open>h1\<close> element shows \<open>Be kind.\<close> (the raw fields), whereas \<open>getIdAdvice\<close>
  returns \<open>advice #42\<close> and \<open>getAdvice\<close> returns \<open>"Be kind."\<close> in quotation marks.
  The text and the id shown are not the values of the two getters.
\<close>

theorem C2_view_shows_raw_fields:
  "store (exec_all sf t [MountView, FetchAdviceSettle (slip_response (JNum 42) (JStr ''Be kind.''))]
            initial_world) = be_kind_state \<and>
   render sf be_kind_state = \<lparr>h4 = ''42'', h1 = ''Be kind.''\<rparr> \<and>
   getIdAdvice be_kind_state = ''advice #42'' \<and>
   getAdvice be_kind_state = CHR 0x22 # ''Be kind.'' @ [CHR 0x22] \<and>
   h4 (render sf be_kind_state) \<noteq> getIdAdvice be_kind_state \<and>
   h1 (render sf be_kind_state) \<noteq> getAdvice be_kind_state"
proof -
  have run: "store (exec_all sf t [MountView, FetchAdviceSettle be_kind_response] initial_world) =
             be_kind_state"
  proof -
    have "store (exec_all sf t [MountView, FetchAdviceSettle be_kind_response] initial_world) =
          latest_record (store initial_world) [MountView, FetchAdviceSettle be_kind_response]"
      by (rule store_exec_all)
    then show ?thesis
      by (simp add: settled_record_def response_record_be_kind)
  qed
  have shown: "render sf be_kind_state = \<lparr>h4 = ''42'', h1 = ''Be kind.''\<rparr>"
    by (simp add: render_def toDisplayString_def view_advice_def view_nAdvice_def
          be_kind_state_def number_to_string_42)
  from run shown show ?thesis
    unfolding be_kind_response_def
    by (simp add: getAdvice_be_kind getIdAdvice_be_kind)
qed

text \<open>
  C3. When the \<open>try\<close> block of a refresh throws (the request is rejected, or reading the
  response throws), the refresh completes with the store as it was before, both fields,
  and with exactly one more \<open>alert\<close>, that of the error thrown.
\<close>

theorem C3_failed_refresh:
  assumes "fetchAdvice_try r (fetchAdvice_call w) = Inl e"
  shows "\<exists>w'. fetchAdvice_resume r (fetchAdvice_call w) = Inr w' \<and>
           store w' = store w \<and>
           alerts w' = alerts w @ [e] \<and>
           length (alerts w') = Suc (length (alerts w))"
proof -
  have "alerts (fetchAdvice_call w) = alerts w"
    by (simp add: fetchAdvice_call_def)
  with resume_failure [OF assms] show ?thesis
    by (simp add: store_catch alerts_catch store_call)
qed

theorem C3_failed_refresh_witness:
  "fetchAdvice_try (Rejected (AxiosError ''Network Error''))
     (fetchAdvice_call (initial_world\<lparr>store := be_kind_state\<rparr>)) =
     Inl (AxiosError ''Network Error'') \<and>
   (\<exists>w'. fetchAdvice_resume (Rejected (AxiosError ''Network Error''))
            (fetchAdvice_call (initial_world\<lparr>store := be_kind_state\<rparr>)) = Inr w' \<and>
          store w' = be_kind_state \<and> alerts w' = [AxiosError ''Network Error''])"
proof -
  have h: "fetchAdvice_try (Rejected (AxiosError ''Network Error''))
             (fetchAdvice_call (initial_world\<lparr>store := be_kind_state\<rparr>)) =
           Inl (AxiosError ''Network Error'')"
    by (simp add: fetchAdvice_try_def)
  from C3_failed_refresh [OF h] obtain w' where
    "fetchAdvice_resume (Rejected (AxiosError ''Network Error''))
       (fetchAdvice_call (initial_world\<lparr>store := be_kind_state\<rparr>)) = Inr w'"
    "store w' = store (initial_world\<lparr>store := be_kind_state\<rparr>)"
    "alerts w' = alerts (initial_world\<lparr>store := be_kind_state\<rparr>) @ [AxiosError ''Network Error'']"
    by blast
  then have "\<exists>w'. fetchAdvice_resume (Rejected (AxiosError ''Network Error''))
            (fetchAdvice_call (initial_world\<lparr>store := be_kind_state\<rparr>)) = Inr w' \<and>
          store w' = be_kind_state \<and> alerts w' = [AxiosError ''Network Error'']"
    by (simp add: initial_world_def)
  with h show ?thesis by blast
qed

text \<open>
  C4. In the initial store state \<open>getAdvice\<close> returns the string of just two double-quote
  characters, and \<open>getIdAdvice\<close> returns the prefix \<open>advice #\<close> with nothing after it.
\<close>

theorem C4_initial_getters:
  "getAdvice initial_state = [CHR 0x22, CHR 0x22] \<and>
   getIdAdvice initial_state = ''advice #'' \<and>
   getAdvice (store initial_world) = [CHR 0x22, CHR 0x22] \<and>
   getIdAdvice (store initial_world) = ''advice #''"
  by (simp add: getAdvice_def getIdAdvice_def initial_state_def initial_world_def dquote_def)

text \<open>
  C5. The store holds one record of two fields. After any run from the initial world it
  is either the initial record or, whole, the record of one response that settled in the
  run: never one field of one response and the other of another. A settling that carries
  a record replaces both fields by that record's; one that carries none leaves both.
\<close>

theorem C5_one_record:
  "(store (exec_all sf t xs initial_world) = initial_state \<or>
    (\<exists>r. FetchAdviceSettle r \<in> set xs \<and>
         response_record r = Some (store (exec_all sf t xs initial_world)))) \<and>
   (\<forall>r rec w. response_record r = Some rec \<longrightarrow>
      (\<exists>w'. fetchAdvice_resume r w = Inr w' \<and> store w' = rec)) \<and>
   (\<forall>r w. response_record r = None \<longrightarrow>
      (\<exists>w'. fetchAdvice_resume r w = Inr w' \<and> store w' = store w))"
proof (intro conjI allI impI)
  have "store (exec_all sf t xs initial_world) = latest_record initial_state xs"
    by (simp add: store_exec_all initial_world_def)
  with latest_record_cases [of initial_state xs]
  show "store (exec_all sf t xs initial_world) = initial_state \<or>
    (\<exists>r. FetchAdviceSettle r \<in> set xs \<and>
         response_record r = Some (store (exec_all sf t xs initial_world)))"
    by simp
next
  fix r rec w
  assume "response_record r = Some rec"
  from resume_success [OF this, of w]
  show "\<exists>w'. fetchAdvice_resume r w = Inr w' \<and> store w' = rec"
    by blast
next
  fix r w
  assume "response_record r = None"
  from try_failure [OF this, of w] obtain e where "fetchAdvice_try r w = Inl e" ..
  from resume_failure [OF this]
  show "\<exists>w'. fetchAdvice_resume r w = Inr w' \<and> store w' = store w"
    by (simp add: store_catch)
qed

theorem C5_one_record_witness:
  "store (exec_all (\<lambda>v. []) ThisComponent
      [MountView, FetchAdviceSettle be_kind_response, ClickControl,
       FetchAdviceSettle network_error] initial_world) = be_kind_state \<and>
   (\<exists>w'. fetchAdvice_resume be_kind_response initial_world = Inr w' \<and>
      store w' = be_kind_state) \<and>
   (\<exists>w'. fetchAdvice_resume network_error initial_world = Inr w' \<and>
      store w' = initial_state)"
proof -
  let ?xs = "[MountView, FetchAdviceSettle be_kind_response, ClickControl,
              FetchAdviceSettle network_error]"
  have run: "store (exec_all (\<lambda>v. []) ThisComponent ?xs initial_world) = be_kind_state"
  proof -
    have "store (exec_all (\<lambda>v. []) ThisComponent ?xs initial_world) = latest_record (store initial_world) ?xs"
      by (rule store_exec_all)
    then show ?thesis
      by (simp add: settled_record_def response_record_be_kind response_record_network_error)
  qed
  from C5_one_record [of "\<lambda>v. []" ThisComponent ?xs]
  have ok: "\<exists>w'. fetchAdvice_resume be_kind_response initial_world = Inr w' \<and>
              store w' = be_kind_state"
    and keep: "\<exists>w'. fetchAdvice_resume network_error initial_world = Inr w' \<and>
              store w' = store initial_world"
    using response_record_be_kind response_record_network_error by blast+
  from keep have "\<exists>w'. fetchAdvice_resume network_error initial_world = Inr w' \<and>
              store w' = initial_state"
    by (simp add: initial_world_def)
  with run ok show ?thesis by blast
qed

text \<open>
  C6. Mounting calls \<open>fetchAdvice\<close> once, handing exactly one GET request to axios, however
  the template is compiled. A click runs \<open>this.newAdvice()\<close>: where \<open>this\<close> is the
  component, it calls \<open>fetchAdvice\<close> once, and mounting followed by \<open>n\<close> clicks makes
  \<open>n + 1\<close> requests; where \<open>this\<close> is \<open>undefined\<close>, the handler throws a \<open>TypeError\<close>,
  calls nothing, and mounting followed by \<open>n\<close> clicks makes the one request of the mounting.
\<close>

theorem C6_click_and_mount_requests:
  "click ThisUndefined w = Inl TypeError \<and>
   exec sf ThisUndefined ClickControl w = (Threw TypeError, w) \<and>
   requests (exec_all sf ThisUndefined (MountView # replicate n ClickControl) initial_world) =
     [advice_url] \<and>
   click ThisComponent w = Inr (newAdvice w) \<and>
   requests (newAdvice w) = requests w @ [advice_url] \<and>
   requests (snd (exec sf ThisComponent ClickControl w)) = requests w @ [advice_url] \<and>
   requests (exec_all sf ThisComponent (MountView # replicate n ClickControl) initial_world) =
     replicate (Suc n) advice_url \<and>
   requests (mounted w) = requests w @ [advice_url] \<and>
   requests (snd (exec sf t MountView w)) = requests w @ [advice_url]"
proof -
  have inlined: "requests (exec_all sf ThisUndefined (MountView # replicate n ClickControl)
                   initial_world) = [advice_url]"
    by (simp add: clicks_undefined requests_mounted initial_world_def)
  have "requests (exec_all sf ThisComponent (MountView # replicate n ClickControl) initial_world) =
        requests (exec_all sf ThisComponent (replicate n ClickControl) (mounted initial_world))"
    by simp
  also have "\<dots> = requests (mounted initial_world) @ replicate n advice_url"
    by (rule requests_clicks_component)
  also have "\<dots> = replicate (Suc n) advice_url"
    by (simp add: requests_mounted initial_world_def)
  finally have bound: "requests (exec_all sf ThisComponent (MountView # replicate n ClickControl)
                         initial_world) = replicate (Suc n) advice_url" .
  from inlined bound show ?thesis
    by (simp add: click_component click_undefined requests_newAdvice requests_mounted)
qed

text \<open>
  C7. Two calls of \<open>fetchAdvice\<close> are made before either request settles; the first
  settles with \<open>r1\<close> (anything), then the second with \<open>r2\<close>. When \<open>r2\<close> carries a
  record, the store ends as that record, and the view renders it. Both calls make the same
  request and run the same continuation, so a settling needs no mark of the call it
  belongs to.
\<close>

theorem C7_last_writer_wins:
  assumes "response_record r2 = Some rec"
  shows "store (exec_all sf t
           [FetchAdviceCall, FetchAdviceCall, FetchAdviceSettle r1, FetchAdviceSettle r2] w) = rec \<and>
         fst (exec sf t RenderView (exec_all sf t
           [FetchAdviceCall, FetchAdviceCall, FetchAdviceSettle r1, FetchAdviceSettle r2] w)) =
           Shown (render sf rec)"
proof -
  let ?xs = "[FetchAdviceCall, FetchAdviceCall, FetchAdviceSettle r1, FetchAdviceSettle r2]"
  have "store (exec_all sf t ?xs w) = latest_record (store w) ?xs"
    by (rule store_exec_all)
  with assms have "store (exec_all sf t ?xs w) = rec"
    by (simp add: settled_record_def)
  then show ?thesis by simp
qed

theorem C7_last_writer_wins_witness:
  "response_record smile_response = Some smile_state \<and>
   store (exec_all (\<lambda>v. []) ThisComponent
     [FetchAdviceCall, FetchAdviceCall, FetchAdviceSettle be_kind_response,
      FetchAdviceSettle smile_response] initial_world) = smile_state \<and>
   fst (exec (\<lambda>v. []) ThisComponent RenderView (exec_all (\<lambda>v. []) ThisComponent
     [FetchAdviceCall, FetchAdviceCall, FetchAdviceSettle be_kind_response,
      FetchAdviceSettle smile_response] initial_world)) = Shown \<lparr>h4 = ''7'', h1 = ''Smile.''\<rparr>"
proof -
  have "digits 7 = ''7''"
    by (simp add: digits.simps [of 7] digit_char_def)
  then have "render (\<lambda>v. []) smile_state = \<lparr>h4 = ''7'', h1 = ''Smile.''\<rparr>"
    by (simp add: render_def toDisplayString_def view_advice_def view_nAdvice_def
          smile_state_def number_to_string_def)
  with C7_last_writer_wins [OF response_record_smile, of "\<lambda>v. []" ThisComponent be_kind_response initial_world]
    response_record_smile
  show ?thesis by simp
qed

text \<open>
  C8. Only the settling of a request (the part of \<open>fetchAdvice\<close> after its \<open>await\<close>)
  writes the store: every other step, the getters, the rendering, a click (whether its
  handler runs or throws), the mounting,
  the call of \<open>fetchAdvice\<close> up to its \<open>await\<close> and \<open>reloadAdvice\<close>, leaves \<open>advice\<close>
  and \<open>nAdvice\<close> as they were.
\<close>

theorem C8_only_settling_writes:
  assumes "\<forall>r. x \<noteq> FetchAdviceSettle r"
  shows "store (snd (exec sf t x w)) = store w"
proof -
  from assms have "settled_record x = None"
    by (cases x) (simp_all add: settled_record_def)
  then show ?thesis by (simp add: store_exec)
qed

theorem C8_only_settling_writes_witness:
  "(\<forall>r. GetAdvice \<noteq> FetchAdviceSettle r) \<and>
   store (snd (exec (\<lambda>v. []) ThisComponent GetAdvice (initial_world\<lparr>store := be_kind_state\<rparr>))) = be_kind_state \<and>
   store (snd (exec (\<lambda>v. []) ThisComponent GetIdAdvice (initial_world\<lparr>store := be_kind_state\<rparr>))) = be_kind_state \<and>
   store (snd (exec (\<lambda>v. []) ThisComponent RenderView (initial_world\<lparr>store := be_kind_state\<rparr>))) = be_kind_state \<and>
   store (snd (exec (\<lambda>v. []) ThisComponent ClickControl (initial_world\<lparr>store := be_kind_state\<rparr>))) = be_kind_state \<and>
   store (snd (exec (\<lambda>v. []) ThisComponent (FetchAdviceSettle smile_response)
      (initial_world\<lparr>store := be_kind_state\<rparr>))) \<noteq> be_kind_state"
proof -
  let ?w = "initial_world\<lparr>store := be_kind_state\<rparr>"
  have a: "\<forall>r. GetAdvice \<noteq> FetchAdviceSettle r"
    and b: "\<forall>r. GetIdAdvice \<noteq> FetchAdviceSettle r"
    and c: "\<forall>r. RenderView \<noteq> FetchAdviceSettle r"
    and d: "\<forall>r. ClickControl \<noteq> FetchAdviceSettle r"
    by simp_all
  have "store (snd (exec (\<lambda>v. []) ThisComponent (FetchAdviceSettle smile_response) ?w)) = smile_state"
    by (simp only: store_exec) (simp add: settled_record_def response_record_smile)
  moreover have "smile_state \<noteq> be_kind_state"
    by (simp add: smile_state_def be_kind_state_def)
  ultimately show ?thesis
    using a C8_only_settling_writes [OF a, of "\<lambda>v. []" ThisComponent ?w]
      C8_only_settling_writes [OF b, of "\<lambda>v. []" ThisComponent ?w]
      C8_only_settling_writes [OF c, of "\<lambda>v. []" ThisComponent ?w]
      C8_only_settling_writes [OF d, of "\<lambda>v. []" ThisComponent ?w]
    by simp
qed

text \<open>
  C9. \<open>fetchAdvice\<close> completes normally whatever the request settles with: a rejection
  and a body without \<open>slip\<close> end in the \<open>catch\<close> block; a \<open>slip\<close> without \<open>id\<close> and
  \<open>advice\<close> does not throw at all and stores \<open>undefined\<close> in both fields.
\<close>

theorem C9_fetchAdvice_never_throws:
  "(\<exists>w'. fetchAdvice_resume r w = Inr w') \<and>
   (\<exists>w'. fetchAdvice_resume r (fetchAdvice_call w) = Inr w') \<and>
   (\<exists>w'. exec sf t (FetchAdviceSettle r) w = (Done, w')) \<and>
   fetchAdvice_resume (Rejected e) w = Inr (fetchAdvice_catch e w) \<and>
   fetchAdvice_resume (Resolved \<lparr>data = JUndefined\<rparr>) w = Inr (fetchAdvice_catch TypeError w) \<and>
   fetchAdvice_resume (Resolved \<lparr>data = JObj []\<rparr>) w = Inr (fetchAdvice_catch TypeError w) \<and>
   (\<exists>w'. fetchAdvice_resume (Resolved \<lparr>data = JObj [(''slip'', JObj [])]\<rparr>) w = Inr w' \<and>
      store w' = \<lparr>advice = JUndefined, nAdvice = JUndefined\<rparr> \<and> alerts w' = alerts w)"
proof -
  have total: "\<exists>w'. fetchAdvice_resume r w = Inr w'" for r w
    by (rule resume_total)
  have step: "\<exists>w'. exec sf t (FetchAdviceSettle r) w = (Done, w')"
    using total [of r w] by auto
  have rej: "fetchAdvice_resume (Rejected e) w = Inr (fetchAdvice_catch e w)"
    by (simp add: fetchAdvice_resume_def fetchAdvice_try_def)
  have undef: "fetchAdvice_resume (Resolved \<lparr>data = JUndefined\<rparr>) w =
               Inr (fetchAdvice_catch TypeError w)"
    by (simp add: fetchAdvice_resume_def fetchAdvice_try_def)
  have noslip: "fetchAdvice_resume (Resolved \<lparr>data = JObj []\<rparr>) w =
                Inr (fetchAdvice_catch TypeError w)"
    by (simp add: fetchAdvice_resume_def fetchAdvice_try_def destructure_id_advice_def)
  have "response_record (Resolved \<lparr>data = JObj [(''slip'', JObj [])]\<rparr>) =
        Some \<lparr>advice = JUndefined, nAdvice = JUndefined\<rparr>"
    by (simp add: response_record_def destructure_id_advice_def)
  from resume_success [OF this, of w]
  have nofields: "\<exists>w'. fetchAdvice_resume (Resolved \<lparr>data = JObj [(''slip'', JObj [])]\<rparr>) w = Inr w' \<and>
      store w' = \<lparr>advice = JUndefined, nAdvice = JUndefined\<rparr> \<and> alerts w' = alerts w"
    by blast
  from total [of r w] total [of r "fetchAdvice_call w"] step rej undef noslip nofields
  show ?thesis by blast
qed

text \<open>
  C10. \<open>nAdvice\<close> starts as the empty string, not the number \<open>0\<close>. A settling that
  carries a record stores the \<open>id\<close> property of the response's \<open>slip\<close> as it is, whatever
  value that is. After any run from the initial world \<open>nAdvice\<close> is that of the latest
  record carried in the run, the empty string when there is none.
\<close>

theorem C10_nAdvice_verbatim:
  "nAdvice initial_state = JStr [] \<and>
   nAdvice initial_state \<noteq> JNum 0 \<and>
   (\<exists>w'. fetchAdvice_resume (slip_response i a) w = Inr w' \<and> nAdvice (store w') = i) \<and>
   (\<forall>r rec. response_record r = Some rec \<longrightarrow>
      (\<exists>resp slip w'. r = Resolved resp \<and> get_prop (data resp) ''slip'' = Inr slip \<and>
         get_prop slip ''id'' = Inr (nAdvice rec) \<and>
         fetchAdvice_resume r w = Inr w' \<and> nAdvice (store w') = nAdvice rec)) \<and>
   nAdvice (store (exec_all sf t xs initial_world)) = nAdvice (latest_record initial_state xs)"
proof (intro conjI allI impI)
  show "nAdvice initial_state = JStr []" "nAdvice initial_state \<noteq> JNum 0"
    by (simp_all add: initial_state_def)
next
  from resume_success [OF response_record_slip, of i a w]
  show "\<exists>w'. fetchAdvice_resume (slip_response i a) w = Inr w' \<and> nAdvice (store w') = i"
    by auto
next
  fix r rec
  assume rec: "response_record r = Some rec"
  from response_record_reads_slip [OF rec] obtain resp slip where
    "r = Resolved resp" "get_prop (data resp) ''slip'' = Inr slip"
    "get_prop slip ''id'' = Inr (nAdvice rec)"
    by blast
  moreover from resume_success [OF rec, of w] obtain w' where
    "fetchAdvice_resume r w = Inr w'" "store w' = rec"
    by blast
  ultimately show "\<exists>resp slip w'. r = Resolved resp \<and> get_prop (data resp) ''slip'' = Inr slip \<and>
         get_prop slip ''id'' = Inr (nAdvice rec) \<and>
         fetchAdvice_resume r w = Inr w' \<and> nAdvice (store w') = nAdvice rec"
    by blast
next
  have "store (exec_all sf t xs initial_world) = latest_record (store initial_world) xs"
    by (rule store_exec_all)
  then show "nAdvice (store (exec_all sf t xs initial_world)) =
             nAdvice (latest_record initial_state xs)"
    by (simp add: initial_world_def)
qed

theorem C10_nAdvice_verbatim_witness:
  "response_record be_kind_response = Some be_kind_state \<and>
   (\<exists>w'. fetchAdvice_resume be_kind_response initial_world = Inr w' \<and>
      nAdvice (store w') = JNum 42) \<and>
   nAdvice (store (exec_all (\<lambda>v. []) ThisComponent
     [MountView, FetchAdviceSettle be_kind_response, ClickControl,
      FetchAdviceSettle network_error] initial_world)) = JNum 42"
proof -
  let ?xs = "[MountView, FetchAdviceSettle be_kind_response, ClickControl,
              FetchAdviceSettle network_error]"
  note inst = C10_nAdvice_verbatim [of "JNum 42" "JStr ''Be kind.''" initial_world "\<lambda>v. []" ThisComponent ?xs]
  from inst response_record_be_kind
  have "\<exists>w'. fetchAdvice_resume be_kind_response initial_world = Inr w' \<and>
          nAdvice (store w') = nAdvice be_kind_state"
    by blast
  then have one: "\<exists>w'. fetchAdvice_resume be_kind_response initial_world = Inr w' \<and>
          nAdvice (store w') = JNum 42"
    by (simp add: be_kind_state_def)
  from inst have "nAdvice (store (exec_all (\<lambda>v. []) ThisComponent ?xs initial_world)) =
                 nAdvice (latest_record initial_state ?xs)"
    by blast
  then have "nAdvice (store (exec_all (\<lambda>v. []) ThisComponent ?xs initial_world)) = JNum 42"
    by (simp add: settled_record_def response_record_be_kind response_record_network_error
          be_kind_state_def)
  with one response_record_be_kind show ?thesis by blast
qed

end
